theory Spec2Isabelle
  imports Complex_Main
begin

section \<open>Strings\<close>

text \<open>
  Python strings are modelled as \<open>string\<close> (lists of 8-bit characters); the
  development covers ASCII text. \<open>str.lower()\<close> maps \<open>A..Z\<close> to \<open>a..z\<close> and leaves
  every other character alone; \<open>str.strip()\<close> removes leading and trailing
  ASCII whitespace (codes 9..13, 28..31 and 32).
\<close>

definition lower_char :: "char \<Rightarrow> char" where
  "lower_char c =
     (let n = (of_char c :: nat) in if 65 \<le> n \<and> n \<le> 90 then char_of (n + 32) else c)"

definition lower :: "string \<Rightarrow> string" where
  "lower s = map lower_char s"

definition is_space :: "char \<Rightarrow> bool" where
  "is_space c =
     (let n = (of_char c :: nat) in (9 \<le> n \<and> n \<le> 13) \<or> (28 \<le> n \<and> n \<le> 32))"

definition strip :: "string \<Rightarrow> string" where
  "strip s = rev (dropWhile is_space (rev (dropWhile is_space s)))"

definition or_empty :: "string option \<Rightarrow> string" where
  \<comment> \<open>\<open>x or ""\<close> for an optional string\<close>
  "or_empty x = (case x of None \<Rightarrow> [] | Some s \<Rightarrow> s)"

section \<open>Subscription identity resolver (build\_subscriptions\_yaml.py)\<close>

subsection \<open>\<open>GUID_RE\<close>\<close>

definition is_hex :: "char \<Rightarrow> bool" where
  \<comment> \<open>the character class \<open>[0-9a-fA-F]\<close>\<close>
  "is_hex c =
     (let n = (of_char c :: nat)
      in (48 \<le> n \<and> n \<le> 57) \<or> (97 \<le> n \<and> n \<le> 102) \<or> (65 \<le> n \<and> n \<le> 70))"

fun hex_group :: "nat \<Rightarrow> string \<Rightarrow> string option" where
  \<comment> \<open>\<open>[0-9a-fA-F]{n}\<close>: consume exactly \<open>n\<close> hexadecimal digits, give the rest\<close>
  "hex_group 0 s = Some s"
| "hex_group (Suc n) [] = None"
| "hex_group (Suc n) (c # s) = (if is_hex c then hex_group n s else None)"

fun dash :: "string \<Rightarrow> string option" where
  "dash [] = None"
| "dash (c # s) = (if c = CHR ''-'' then Some s else None)"

definition guid_groups :: "string \<Rightarrow> string option" where
  \<comment> \<open>the body of \<open>GUID_RE\<close> between \<open>^\<close> and \<open>$\<close>: groups of 8-4-4-4-12\<close>
  "guid_groups s =
     Option.bind (hex_group 8 s) (\<lambda>s1. Option.bind (dash s1)
    (\<lambda>s2. Option.bind (hex_group 4 s2) (\<lambda>s3. Option.bind (dash s3)
    (\<lambda>s4. Option.bind (hex_group 4 s4) (\<lambda>s5. Option.bind (dash s5)
    (\<lambda>s6. Option.bind (hex_group 4 s6) (\<lambda>s7. Option.bind (dash s7)
    (\<lambda>s8. hex_group 12 s8))))))))"

definition GUID_RE_match :: "string \<Rightarrow> bool" where
  \<comment> \<open>\<open>GUID_RE.match(s)\<close>; Python's \<open>$\<close> also matches just before a final newline\<close>
  "GUID_RE_match s =
     (case guid_groups s of None \<Rightarrow> False
      | Some rest \<Rightarrow> rest = [] \<or> rest = [CHR 0x0A])"

definition guid_shape :: "string \<Rightarrow> bool" where
  \<comment> \<open>the canonical GUID shape of the specification: exactly 8-4-4-4-12 hexadecimal digits\<close>
  "guid_shape s = (guid_groups s = Some [])"

subsection \<open>\<open>build_subscription_index\<close>\<close>

record subscription =
  display_name :: "string option"
  subscription_id :: "string option"

datatype warning =
    NoSubscriptionsVisible
  | DuplicateDisplayName string
  | SubscriptionNotFound string

record index_state =
  name_to_id :: "string \<rightharpoonup> string"
  id_to_name :: "string \<rightharpoonup> string"
  seen_names :: "string set"
  stderr :: "warning list"

definition index_step :: "index_state \<Rightarrow> subscription \<Rightarrow> index_state" where
  \<comment> \<open>one iteration of \<open>for s in subs\<close>\<close>
  "index_step st s =
     (let display = strip (or_empty (display_name s));
          sid = strip (or_empty (subscription_id s))
      in if sid = [] then st
         else
           let st1 = st\<lparr>id_to_name := (id_to_name st)(sid \<mapsto> display)\<rparr>;
               key = lower display
           in if key \<in> seen_names st1
              then st1\<lparr>stderr := stderr st1 @ [DuplicateDisplayName display]\<rparr>
              else
                let st2 = st1\<lparr>seen_names := insert key (seen_names st1)\<rparr>
                in if name_to_id st2 key = None
                   then st2\<lparr>name_to_id := (name_to_id st2)(key \<mapsto> sid)\<rparr>
                   else st2)"

definition index_init :: "subscription list \<Rightarrow> index_state" where
  "index_init subs =
     \<lparr>name_to_id = Map.empty, id_to_name = Map.empty, seen_names = {},
      stderr = (if subs = [] then [NoSubscriptionsVisible] else [])\<rparr>"

definition build_subscription_index :: "subscription list \<Rightarrow> index_state" where
  \<comment> \<open>the two returned dictionaries are the fields \<open>name_to_id\<close> and \<open>id_to_name\<close>\<close>
  "build_subscription_index subs = foldl index_step (index_init subs) subs"

subsection \<open>\<open>resolve_subscription_id\<close>\<close>

definition resolve_subscription_id ::
  "string \<Rightarrow> (string \<rightharpoonup> string) \<Rightarrow> (string \<rightharpoonup> string) \<Rightarrow> string option \<times> warning list" where
  \<comment> \<open>the result and the warnings printed\<close>
  "resolve_subscription_id sub_input n2i i2n =
     (if GUID_RE_match sub_input then (Some sub_input, [])
      else
        let key = lower sub_input; sid = n2i key
        in if sid = None \<or> sid = Some [] then (None, [SubscriptionNotFound sub_input])
           else (sid, []))"

subsection \<open>The aggregation loop of \<open>main\<close>\<close>

record agg_state =
  agg_rgs :: "string \<rightharpoonup> string set"
  agg_name :: "string \<rightharpoonup> string"
  agg_stderr :: "warning list"

definition agg_step ::
  "(string \<rightharpoonup> string) \<Rightarrow> (string \<rightharpoonup> string) \<Rightarrow> agg_state \<Rightarrow> string \<times> string \<Rightarrow> agg_state" where
  \<comment> \<open>one iteration of \<open>for sub_raw, rg in rows\<close>\<close>
  "agg_step n2i i2n st row =
     (let sub_raw = fst row; rg = snd row;
          res = resolve_subscription_id sub_raw n2i i2n;
          st0 = st\<lparr>agg_stderr := agg_stderr st @ snd res\<rparr>
      in case fst res of
           None \<Rightarrow> st0
         | Some sid \<Rightarrow>
             if sid = [] then st0
             else
               let st1 = st0\<lparr>agg_rgs := (agg_rgs st0)
                            (sid \<mapsto> insert rg (case agg_rgs st0 sid of None \<Rightarrow> {} | Some S \<Rightarrow> S))\<rparr>;
                   chosen0 = or_empty (i2n sid);
                   chosen_name =
                     (if chosen0 = [] \<and> \<not> GUID_RE_match sub_raw then strip sub_raw else chosen0)
               in if chosen_name \<noteq> [] \<and> agg_name st1 sid = None
                  then st1\<lparr>agg_name := (agg_name st1)(sid \<mapsto> chosen_name)\<rparr>
                  else st1)"

definition aggregate_rows ::
  "(string \<rightharpoonup> string) \<Rightarrow> (string \<rightharpoonup> string) \<Rightarrow> (string \<times> string) list \<Rightarrow> agg_state" where
  "aggregate_rows n2i i2n rows =
     foldl (agg_step n2i i2n) \<lparr>agg_rgs = Map.empty, agg_name = Map.empty, agg_stderr = []\<rparr> rows"

subsection \<open>Reading a directory entry\<close>




section \<open>Cost pull (rg\_monthly\_costs.py)\<close>

text \<open>
  Python floats are modelled as exact rationals (every finite float is one): sums and
  products are exact here and rounded in Python, and infinities and NaN are absent. The
  built-in \<open>float(v)\<close> of a string is a parameter \<open>pyfloat\<close> of the functions that call
  it, \<open>None\<close> standing for the \<open>ValueError\<close> it raises.
\<close>

type_synonym headers = "string \<rightharpoonup> string"

datatype error =
    HttpResponseError int headers
  | ValueError
  | OverflowError
  | IndexError
  | AttributeError
  | RuntimeError string
  | SystemExit int
  | OtherError string

datatype 'r outcome = Returned 'r | Raised error

subsection \<open>\<open>_parse_retry_after\<close>\<close>

definition RETRY_AFTER_KEYS :: "string list" where
  "RETRY_AFTER_KEYS =
     [''Retry-After'',
      ''x-ms-ratelimit-microsoft.costmanagement-qpu-retry-after'',
      ''x-ms-ratelimit-microsoft.costmanagement-entity-retry-after'',
      ''x-ms-ratelimit-microsoft.costmanagement-tenant-retry-after'',
      ''x-ms-ratelimit-microsoft.costmanagement-client-retry-after'',
      ''x-ms-ratelimit-microsoft.consumption-retry-after'']"

fun parse_retry_after_keys :: "(string \<Rightarrow> rat option) \<Rightarrow> headers \<Rightarrow> string list \<Rightarrow> rat option" where
  \<comment> \<open>\<open>for k in ...\<close>: an absent or empty value is skipped, the first other value decides\<close>
  "parse_retry_after_keys pyfloat hdrs [] = None"
| "parse_retry_after_keys pyfloat hdrs (k # ks) =
     (case hdrs k of
        None \<Rightarrow> parse_retry_after_keys pyfloat hdrs ks
      | Some v \<Rightarrow>
          if v = [] then parse_retry_after_keys pyfloat hdrs ks
          else (case pyfloat v of Some x \<Rightarrow> Some x | None \<Rightarrow> None))"

definition parse_retry_after :: "(string \<Rightarrow> rat option) \<Rightarrow> headers \<Rightarrow> rat option" where
  "parse_retry_after pyfloat hdrs = parse_retry_after_keys pyfloat hdrs RETRY_AFTER_KEYS"

subsection \<open>\<open>usage_with_retry\<close>\<close>

definition uniform :: "rat \<Rightarrow> rat \<Rightarrow> rat \<Rightarrow> rat" where
  \<comment> \<open>\<open>random.uniform(a, b)\<close> is \<open>a + (b - a) * random()\<close>; \<open>u\<close> is the draw of \<open>random()\<close> in \<open>[0, 1)\<close>\<close>
  "uniform a b u = a + (b - a) * u"

definition retry_wait :: "(string \<Rightarrow> rat option) \<Rightarrow> rat \<Rightarrow> nat \<Rightarrow> headers \<Rightarrow> rat" where
  \<comment> \<open>\<open>retry_after\<close> before the jitter is added\<close>
  "retry_wait pyfloat base_sleep attempt hdrs =
     (case parse_retry_after pyfloat hdrs of
        None \<Rightarrow> min (base_sleep * 2 ^ attempt) 60
      | Some retry_after \<Rightarrow> retry_after)"

definition sleep_duration :: "rat \<Rightarrow> rat \<Rightarrow> rat" where
  \<comment> \<open>\<open>sleep_s\<close> for the wait \<open>retry_after\<close> and the random draw \<open>u\<close>\<close>
  "sleep_duration retry_after u =
     (let jitter = uniform 0 (0.2 * retry_after) u in retry_after + jitter)"

definition is_transient :: "error \<Rightarrow> bool" where
  \<comment> \<open>an \<open>HttpResponseError\<close> whose \<open>status_code\<close> is in \<open>(429, 503)\<close>\<close>
  "is_transient e =
     (case e of HttpResponseError status hdrs \<Rightarrow> status = 429 \<or> status = 503 | _ \<Rightarrow> False)"

definition error_headers :: "error \<Rightarrow> headers" where
  "error_headers e = (case e of HttpResponseError status hdrs \<Rightarrow> hdrs | _ \<Rightarrow> Map.empty)"

text \<open>
  The remote call is the function \<open>call\<close>: \<open>call k\<close> is what the attempt numbered \<open>k\<close>
  returns or raises. \<open>rnd k\<close> is the random draw of that attempt. The loop state is
  \<open>attempt\<close> and the list of the durations slept so far; \<open>time.sleep\<close> raises
  \<open>ValueError\<close> on a negative duration.
\<close>

function retry_loop ::
  "(string \<Rightarrow> rat option) \<Rightarrow> (nat \<Rightarrow> 'r outcome) \<Rightarrow> (nat \<Rightarrow> rat) \<Rightarrow> int \<Rightarrow> rat \<Rightarrow> nat \<Rightarrow> rat list
     \<Rightarrow> (error + 'r) \<times> rat list" where
  "retry_loop pyfloat call rnd max_retries base_sleep attempt slept =
     (case call attempt of
        Returned r \<Rightarrow> (Inr r, slept)
      | Raised e \<Rightarrow>
          if is_transient e then
            let sleep_s = sleep_duration
                  (retry_wait pyfloat base_sleep attempt (error_headers e)) (rnd attempt)
            in if sleep_s < 0 then (Inl ValueError, slept)
               else if max_retries \<le> int (Suc attempt) then (Inl e, slept @ [sleep_s])
               else retry_loop pyfloat call rnd max_retries base_sleep (Suc attempt)
                      (slept @ [sleep_s])
          else (Inl e, slept))"
  by pat_completeness auto
termination
  by (relation "measure (\<lambda>(pyfloat, call, rnd, max_retries, base_sleep, attempt, slept).
        nat (max_retries - int attempt))") auto

declare retry_loop.simps [simp del]

definition usage_with_retry ::
  "(string \<Rightarrow> rat option) \<Rightarrow> (nat \<Rightarrow> 'r outcome) \<Rightarrow> (nat \<Rightarrow> rat) \<Rightarrow> int \<Rightarrow> rat
     \<Rightarrow> (error + 'r) \<times> rat list" where
  "usage_with_retry pyfloat call rnd max_retries base_sleep =
     retry_loop pyfloat call rnd max_retries base_sleep 0 []"

subsection \<open>\<open>query_rg_costs_for_subscription\<close>\<close>

datatype cell = CNone | CStr string | CNum rat

record response =
  resp_columns :: "string option list"
  resp_rows :: "cell list list"

fun first_index :: "('a \<Rightarrow> bool) \<Rightarrow> 'a list \<Rightarrow> nat option" where
  \<comment> \<open>\<open>next(i for i, c in enumerate(cols) if P c)\<close>, \<open>None\<close> for \<open>StopIteration\<close>\<close>
  "first_index P [] = None"
| "first_index P (x # xs) =
     (if P x then Some 0 else map_option Suc (first_index P xs))"

definition name_in :: "string list \<Rightarrow> string option \<Rightarrow> bool" where
  "name_in names c = (case c of None \<Rightarrow> False | Some n \<Rightarrow> n \<in> set names)"

definition cell_at :: "cell list \<Rightarrow> nat \<Rightarrow> error + cell" where
  "cell_at r i = (if i < length r then Inr (r ! i) else Inl IndexError)"

definition rg_of_cell :: "cell \<Rightarrow> error + string" where
  \<comment> \<open>\<open>(c or "").lower()\<close>: a non-zero number has no \<open>lower\<close>\<close>
  "rg_of_cell c =
     (case c of
        CNone \<Rightarrow> Inr (lower [])
      | CStr s \<Rightarrow> Inr (lower s)
      | CNum x \<Rightarrow> if x = 0 then Inr (lower []) else Inl AttributeError)"

definition cost_of_cell :: "(string \<Rightarrow> rat option) \<Rightarrow> cell \<Rightarrow> error + rat" where
  \<comment> \<open>\<open>float(c or 0.0)\<close>\<close>
  "cost_of_cell pyfloat c =
     (case c of
        CNone \<Rightarrow> Inr 0
      | CNum x \<Rightarrow> Inr x
      | CStr s \<Rightarrow>
          if s = [] then Inr 0
          else (case pyfloat s of None \<Rightarrow> Inl ValueError | Some x \<Rightarrow> Inr x))"

definition row_entry ::
  "(string \<Rightarrow> rat option) \<Rightarrow> nat \<Rightarrow> nat \<Rightarrow> cell list \<Rightarrow> error + string \<times> rat" where
  \<comment> \<open>the key \<open>rg.lower()\<close> and the \<open>cost\<close> of one row, in the order the body evaluates them\<close>
  "row_entry pyfloat rg_idx cost_idx r =
     (case cell_at r rg_idx of
        Inl e \<Rightarrow> Inl e
      | Inr c1 \<Rightarrow>
          (case cell_at r cost_idx of
             Inl e \<Rightarrow> Inl e
           | Inr c2 \<Rightarrow>
               (case cost_of_cell pyfloat c2 of
                  Inl e \<Rightarrow> Inl e
                | Inr cost \<Rightarrow>
                    (case rg_of_cell c1 of
                       Inl e \<Rightarrow> Inl e
                     | Inr key \<Rightarrow> Inr (key, cost)))))"

fun fold_rows ::
  "(string \<Rightarrow> rat option) \<Rightarrow> nat \<Rightarrow> nat \<Rightarrow> cell list list \<Rightarrow> (string \<rightharpoonup> rat)
     \<Rightarrow> error + (string \<rightharpoonup> rat)" where
  \<comment> \<open>\<open>for r in rows: ... out[rg.lower()] = out.get(rg.lower(), 0.0) + cost\<close>\<close>
  "fold_rows pyfloat rg_idx cost_idx [] out = Inr out"
| "fold_rows pyfloat rg_idx cost_idx (r # rs) out =
     (case row_entry pyfloat rg_idx cost_idx r of
        Inl e \<Rightarrow> Inl e
      | Inr (key, cost) \<Rightarrow>
          fold_rows pyfloat rg_idx cost_idx rs
            (out(key \<mapsto> (case out key of None \<Rightarrow> 0 | Some v \<Rightarrow> v) + cost)))"

definition query_rg_costs_for_subscription ::
  "(string \<Rightarrow> rat option) \<Rightarrow> (nat \<Rightarrow> response outcome) \<Rightarrow> (nat \<Rightarrow> rat) \<Rightarrow> int
     \<Rightarrow> error + (string \<rightharpoonup> rat)" where
  \<comment> \<open>\<open>base_sleep\<close> keeps its default 2.0; the second search for the cost column looks
      for a name the first search already covers, so it fails whenever it is reached\<close>
  "query_rg_costs_for_subscription pyfloat call rnd max_retries =
     (case fst (usage_with_retry pyfloat call rnd max_retries 2) of
        Inl e \<Rightarrow> Inl e
      | Inr resp \<Rightarrow>
          (case first_index (name_in [''ResourceGroupName'', ''ResourceGroup'']) (resp_columns resp) of
             None \<Rightarrow> Inl (RuntimeError
               ''Query did not return ResourceGroupName column; check permissions/scope.'')
           | Some rg_idx \<Rightarrow>
               (case first_index (name_in [''totalCost'', ''PreTaxCost'']) (resp_columns resp) of
                  None \<Rightarrow>
                    (case first_index (name_in [''totalCost'']) (resp_columns resp) of
                       None \<Rightarrow> Inl (RuntimeError
                         ''Query did not return cost column; check aggregation name.'')
                     | Some cost_idx \<Rightarrow>
                         fold_rows pyfloat rg_idx cost_idx (resp_rows resp) Map.empty)
                | Some cost_idx \<Rightarrow>
                    fold_rows pyfloat rg_idx cost_idx (resp_rows resp) Map.empty)))"


subsection \<open>Decimal literals\<close>

definition is_digit :: "char \<Rightarrow> bool" where
  "is_digit c = (let n = (of_char c :: nat) in 48 \<le> n \<and> n \<le> 57)"

definition digits_value :: "string \<Rightarrow> nat" where
  "digits_value ds = foldl (\<lambda>acc c. 10 * acc + (of_char c - 48)) 0 ds"

definition float_of_decimal :: "string \<Rightarrow> rat option" where
  \<comment> \<open>Python's \<open>float(s)\<close> on the plain decimal literals: surrounding whitespace, an
      optional sign, digits with an optional fraction. The other forms Python reads
      (exponents, underscores, \<open>inf\<close>, \<open>nan\<close>) are outside this function, which is used
      only to instantiate \<open>pyfloat\<close> at concrete literals.\<close>
  "float_of_decimal s =
     (let t = strip s;
          neg = (t \<noteq> [] \<and> hd t = CHR ''-'');
          body = (if t \<noteq> [] \<and> (hd t = CHR ''-'' \<or> hd t = CHR ''+'') then tl t else t);
          ip = takeWhile is_digit body;
          rest = dropWhile is_digit body;
          fp = (case rest of
                  [] \<Rightarrow> Some []
                | c # r \<Rightarrow> if c = CHR ''.'' \<and> list_all is_digit r then Some r else None)
      in case fp of
           None \<Rightarrow> None
         | Some f \<Rightarrow>
             if ip = [] \<and> f = [] then None
             else Some ((if neg then - 1 else 1)
                    * (of_nat (digits_value ip) + of_nat (digits_value f) / 10 ^ length f)))"

subsection \<open>Describing a run of the retry loop\<close>






subsection \<open>\<open>previous_month_range\<close>\<close>

text \<open>
  A naive \<open>datetime\<close>, as \<open>datetime.utcnow()\<close> returns it. Subtracting one day follows
  the proleptic Gregorian calendar of the \<open>datetime\<close> module and raises
  \<open>OverflowError\<close> below the first day of year 1.
\<close>

record datetime =
  year :: nat
  month :: nat
  day :: nat
  hour :: nat
  minute :: nat
  second :: nat
  microsecond :: nat

definition is_leap :: "nat \<Rightarrow> bool" where
  "is_leap y = (y mod 4 = 0 \<and> (y mod 100 \<noteq> 0 \<or> y mod 400 = 0))"

definition days_in_month :: "nat \<Rightarrow> nat \<Rightarrow> nat" where
  "days_in_month y m =
     (if m = 2 then (if is_leap y then 29 else 28)
      else if m = 4 \<or> m = 6 \<or> m = 9 \<or> m = 11 then 30 else 31)"

definition valid_datetime :: "datetime \<Rightarrow> bool" where
  "valid_datetime d =
     (1 \<le> year d \<and> year d \<le> 9999 \<and> 1 \<le> month d \<and> month d \<le> 12
      \<and> 1 \<le> day d \<and> day d \<le> days_in_month (year d) (month d)
      \<and> hour d < 24 \<and> minute d < 60 \<and> second d < 60 \<and> microsecond d < 1000000)"

definition replace_to_first :: "datetime \<Rightarrow> datetime" where
  \<comment> \<open>\<open>.replace(day=1, hour=0, minute=0, second=0, microsecond=0)\<close>\<close>
  "replace_to_first d = d\<lparr>day := 1, hour := 0, minute := 0, second := 0, microsecond := 0\<rparr>"

definition minus_one_day :: "datetime \<Rightarrow> error + datetime" where
  \<comment> \<open>\<open>d - dt.timedelta(days=1)\<close>\<close>
  "minus_one_day d =
     (if 1 < day d then Inr (d\<lparr>day := day d - 1\<rparr>)
      else if 1 < month d
        then Inr (d\<lparr>month := month d - 1, day := days_in_month (year d) (month d - 1)\<rparr>)
      else if 1 < year d then Inr (d\<lparr>year := year d - 1, month := 12, day := 31\<rparr>)
      else Inl OverflowError)"

fun pad_dec :: "nat \<Rightarrow> nat \<Rightarrow> string" where
  \<comment> \<open>the last \<open>w\<close> decimal digits of \<open>n\<close>, zero-padded: \<open>%0wd\<close> for \<open>n < 10^w\<close>\<close>
  "pad_dec 0 n = []"
| "pad_dec (Suc w) n = pad_dec w (n div 10) @ [char_of (48 + n mod 10)]"

definition isoformat :: "datetime \<Rightarrow> string" where
  "isoformat d =
     pad_dec 4 (year d) @ ''-'' @ pad_dec 2 (month d) @ ''-'' @ pad_dec 2 (day d) @ ''T''
     @ pad_dec 2 (hour d) @ '':'' @ pad_dec 2 (minute d) @ '':'' @ pad_dec 2 (second d)
     @ (if microsecond d = 0 then [] else ''.'' @ pad_dec 6 (microsecond d))"

definition previous_month_range :: "datetime \<Rightarrow> error + string \<times> string" where
  "previous_month_range now_utc =
     (let first_of_this_month = replace_to_first now_utc;
          last_month_end = first_of_this_month
      in case minus_one_day last_month_end of
           Inl e \<Rightarrow> Inl e
         | Inr prev_month_last_day \<Rightarrow>
             let first_of_prev_month = replace_to_first prev_month_last_day
             in Inr (isoformat first_of_prev_month @ ''Z'', isoformat last_month_end @ ''Z''))"

definition month_start_iso :: "nat \<Rightarrow> nat \<Rightarrow> string" where
  \<comment> \<open>the Z-suffixed ISO-8601 timestamp of midnight on the first day of month \<open>m\<close> of year \<open>y\<close>\<close>
  "month_start_iso y m = pad_dec 4 y @ ''-'' @ pad_dec 2 m @ ''-01T00:00:00Z''"

subsection \<open>The record loop of \<open>main\<close>\<close>

record target =
  t_id :: string
  t_resource_groups :: "string list"

record cost_record =
  cr_subscription_id :: string
  cr_resource_group :: string
  cr_start :: string
  cr_end :: string
  cr_total_cost :: rat

definition round_half_even :: "rat \<Rightarrow> int" where
  "round_half_even x =
     (let f = \<lfloor>x\<rfloor>; d = x - of_int f
      in if d < 1 / 2 then f else if 1 / 2 < d then f + 1 else if even f then f else f + 1)"

definition round2 :: "rat \<Rightarrow> rat" where
  \<comment> \<open>\<open>round(cost, 2)\<close>: the nearest multiple of 0.01 of the exact value, ties to even;
      Python returns the float nearest to this decimal\<close>
  "round2 x = of_int (round_half_even (x * 100)) / 100"

definition emit_records ::
  "string \<Rightarrow> string \<Rightarrow> string \<Rightarrow> (string \<rightharpoonup> rat) \<Rightarrow> string list \<Rightarrow> cost_record list" where
  \<comment> \<open>the records appended by \<open>for rg in wanted_rgs\<close>\<close>
  "emit_records sub_id start_iso end_iso rg_costs wanted_rgs =
     map (\<lambda>rg.
        let cost = (case rg_costs rg of None \<Rightarrow> 0 | Some c \<Rightarrow> c)
        in \<lparr>cr_subscription_id = sub_id, cr_resource_group = rg, cr_start = start_iso,
            cr_end = end_iso, cr_total_cost = round2 cost\<rparr>) wanted_rgs"

text \<open>
  The remote service seen by \<open>main\<close>: \<open>call i k\<close> is the outcome of attempt \<open>k\<close> of the
  query made in iteration \<open>i\<close> of \<open>for sub in targets\<close>, and \<open>rnd i k\<close> the random draw
  of that attempt. \<open>pace\<close> is the option \<open>--sleep\<close>, slept after each subscription
  (\<open>time.sleep\<close> raises \<open>ValueError\<close> when it is negative). A target has both keys
  \<open>id\<close> and \<open>resource_groups\<close> (a missing \<open>resource_groups\<close> is the empty list).
\<close>

fun pull_loop ::
  "(string \<Rightarrow> rat option) \<Rightarrow> (nat \<Rightarrow> nat \<Rightarrow> response outcome) \<Rightarrow> (nat \<Rightarrow> nat \<Rightarrow> rat) \<Rightarrow> int
     \<Rightarrow> rat \<Rightarrow> string \<Rightarrow> string \<Rightarrow> nat \<Rightarrow> target list \<Rightarrow> cost_record list \<Rightarrow> error + cost_record list" where
  "pull_loop pyfloat call rnd maxretries pace start_iso end_iso i [] records = Inr records"
| "pull_loop pyfloat call rnd maxretries pace start_iso end_iso i (sub # targets) records =
     (let sub_id = t_id sub;
          wanted_rgs = map lower (t_resource_groups sub)
      in case query_rg_costs_for_subscription pyfloat (call i) (rnd i) maxretries of
           Inl e \<Rightarrow> Inl e
         | Inr rg_costs \<Rightarrow>
             let records' = records @ emit_records sub_id start_iso end_iso rg_costs wanted_rgs
             in if pace < 0 then Inl ValueError
                else pull_loop pyfloat call rnd maxretries pace start_iso end_iso (Suc i)
                       targets records')"

definition pull_main ::
  "(string \<Rightarrow> rat option) \<Rightarrow> (nat \<Rightarrow> nat \<Rightarrow> response outcome) \<Rightarrow> (nat \<Rightarrow> nat \<Rightarrow> rat) \<Rightarrow> int
     \<Rightarrow> rat \<Rightarrow> datetime \<Rightarrow> target list \<Rightarrow> error + cost_record list" where
  \<comment> \<open>\<open>main\<close> up to the list \<open>records\<close> that is written to the CSV file\<close>
  "pull_main pyfloat call rnd maxretries pace now_utc targets =
     (if targets = [] then Inl (SystemExit 2)
      else case previous_month_range now_utc of
             Inl e \<Rightarrow> Inl e
           | Inr (start_iso, end_iso) \<Rightarrow>
               pull_loop pyfloat call rnd maxretries pace start_iso end_iso 0 targets [])"

subsection \<open>What the specification expects of a fold and of a run\<close>

definition cell_name :: "cell \<Rightarrow> string" where
  "cell_name c = (case c of CStr s \<Rightarrow> s | _ \<Rightarrow> [])"

definition cell_cost :: "cell \<Rightarrow> rat" where
  "cell_cost c = (case c of CNum x \<Rightarrow> x | _ \<Rightarrow> 0)"

definition plain_row :: "nat \<Rightarrow> nat \<Rightarrow> cell list \<Rightarrow> bool" where
  \<comment> \<open>a row with a name or null in the resource-group column and a number, null or the
      empty string in the cost column\<close>
  "plain_row rg_idx cost_idx r =
     (rg_idx < length r \<and> cost_idx < length r
      \<and> (case r ! rg_idx of CNum x \<Rightarrow> False | _ \<Rightarrow> True)
      \<and> (case r ! cost_idx of CStr s \<Rightarrow> s = [] | _ \<Rightarrow> True))"

definition summed_cost :: "nat \<Rightarrow> nat \<Rightarrow> cell list list \<Rightarrow> string \<Rightarrow> rat" where
  \<comment> \<open>the sum of the costs of the rows whose lower-cased resource-group name is \<open>k\<close>\<close>
  "summed_cost rg_idx cost_idx rs k =
     sum_list (map (\<lambda>r. cell_cost (r ! cost_idx))
       (filter (\<lambda>r. lower (cell_name (r ! rg_idx)) = k) rs))"





section \<open>Properties of the resolver\<close>

lemma guid_groups_Nil: "guid_groups [] = None"
  by code_simp

lemma GUID_RE_match_nonempty: "GUID_RE_match s \<Longrightarrow> s \<noteq> []"
  by (auto simp: GUID_RE_match_def guid_groups_Nil)

lemma resolve_nonempty:
  "fst (resolve_subscription_id tok n2i i2n) = Some sid \<Longrightarrow> sid \<noteq> []"
  by (auto simp: resolve_subscription_id_def Let_def GUID_RE_match_nonempty split: if_splits)









text \<open>
  C6. A token of the GUID shape (8-4-4-4-12 hexadecimal digits) is returned verbatim by
  \<open>resolve_subscription_id\<close>, whatever the two index dictionaries hold, and no warning
  is printed.
\<close>

theorem resolve_guid_passthrough:
  "guid_shape tok \<Longrightarrow> resolve_subscription_id tok n2i i2n = (Some tok, [])"
  by (simp add: guid_shape_def GUID_RE_match_def resolve_subscription_id_def)

theorem resolve_guid_passthrough_witness:
  "guid_shape ''11111111-1111-1111-1111-111111111111''
   \<and> resolve_subscription_id ''11111111-1111-1111-1111-111111111111'' Map.empty Map.empty
       = (Some ''11111111-1111-1111-1111-111111111111'', [])"
proof -
  have h: "guid_shape ''11111111-1111-1111-1111-111111111111''"
    by code_simp
  from resolve_guid_passthrough [OF h, of Map.empty Map.empty] h show ?thesis
    by simp
qed

section \<open>Properties of the aggregation loop\<close>

lemma agg_step_rgs:
  "agg_rgs (agg_step n2i i2n st (tok, rg)) sid =
     (if fst (resolve_subscription_id tok n2i i2n) = Some sid
      then Some (insert rg (case agg_rgs st sid of None \<Rightarrow> {} | Some S \<Rightarrow> S))
      else agg_rgs st sid)"
  by (auto simp: agg_step_def Let_def dest: resolve_nonempty split: option.splits)

lemma foldl_agg_step_rgs:
  "agg_rgs (foldl (agg_step n2i i2n) st rows) sid =
     (let new = {rg. \<exists>tok. (tok, rg) \<in> set rows
                        \<and> fst (resolve_subscription_id tok n2i i2n) = Some sid}
      in case agg_rgs st sid of
           None \<Rightarrow> if new = {} then None else Some new
         | Some S \<Rightarrow> Some (S \<union> new))"
proof (induction rows arbitrary: st)
  case Nil
  then show ?case by (simp split: option.splits)
next
  case (Cons row rows)
  obtain tok rg where row: "row = (tok, rg)" by (cases row)
  show ?case
    unfolding row foldl_Cons Cons.IH agg_step_rgs Let_def
    by (auto split: option.splits)
qed

lemma aggregate_rows_rgs:
  "agg_rgs (aggregate_rows n2i i2n rows) sid =
     (let new = {rg. \<exists>tok. (tok, rg) \<in> set rows
                        \<and> fst (resolve_subscription_id tok n2i i2n) = Some sid}
      in if new = {} then None else Some new)"
  by (simp add: aggregate_rows_def foldl_agg_step_rgs Let_def)

text \<open>
  C1 as stated fails: the loop adds the resource-group string as it is written, so the
  rows \<open>("SubA", "rg1")\<close> and \<open>("SubA", "RG1")\<close>, which resolve to the same subscription
  and differ only in casing, give a set of two elements.
\<close>

theorem casing_variants_not_merged:
  "agg_rgs (aggregate_rows
      (name_to_id (build_subscription_index
        [\<lparr>display_name = Some ''SubA'',
          subscription_id = Some ''22222222-2222-2222-2222-222222222222''\<rparr>]))
      (id_to_name (build_subscription_index
        [\<lparr>display_name = Some ''SubA'',
          subscription_id = Some ''22222222-2222-2222-2222-222222222222''\<rparr>]))
      [(''SubA'', ''rg1''), (''SubA'', ''RG1'')]) ''22222222-2222-2222-2222-222222222222''
     = Some {''rg1'', ''RG1''}
   \<and> card {''rg1'', ''RG1''} = 2 \<and> lower ''rg1'' = lower ''RG1''"
  apply (intro conjI)
    apply code_simp
   apply simp
  apply code_simp
  done

text \<open>
  C1, amended. Two rows whose tokens resolve to the same subscription id fold into the
  set of their two resource-group strings, compared as written: one element when the
  strings are identical, two when they differ in any way.
\<close>

theorem two_rows_resource_groups:
  "fst (resolve_subscription_id a n2i i2n) = Some sid \<Longrightarrow>
   fst (resolve_subscription_id b n2i i2n) = Some sid \<Longrightarrow>
   agg_rgs (aggregate_rows n2i i2n [(a, ra), (b, rb)]) sid = Some {ra, rb}
   \<and> card {ra, rb} = (if ra = rb then 1 else 2)"
  by (auto simp: aggregate_rows_rgs Let_def)

theorem two_rows_resource_groups_witness:
  "fst (resolve_subscription_id ''SubA'' [''suba'' \<mapsto> ''S1''] Map.empty) = Some ''S1''
   \<and> fst (resolve_subscription_id ''SUBA'' [''suba'' \<mapsto> ''S1''] Map.empty) = Some ''S1''
   \<and> agg_rgs (aggregate_rows [''suba'' \<mapsto> ''S1''] Map.empty
        [(''SubA'', ''rg1''), (''SUBA'', ''rg1'')]) ''S1'' = Some {''rg1''}"
proof -
  have a: "fst (resolve_subscription_id ''SubA'' [''suba'' \<mapsto> ''S1''] Map.empty) = Some ''S1''"
    by code_simp
  have b: "fst (resolve_subscription_id ''SUBA'' [''suba'' \<mapsto> ''S1''] Map.empty) = Some ''S1''"
    by code_simp
  from two_rows_resource_groups [OF a b, of "''rg1''" "''rg1''"] a b show ?thesis
    by simp
qed

section \<open>Properties of the retry policy\<close>

lemma parse_retry_after_empty: "parse_retry_after pf Map.empty = None"
  by (simp add: parse_retry_after_def RETRY_AFTER_KEYS_def)

text \<open>
  C2 as stated fails: a numeric wait hint is used as it is, without the 60 second
  ceiling. With the header \<open>Retry-After: 120\<close> the wait before jitter is 120 seconds.
\<close>

theorem wait_hint_not_capped:
  "retry_wait float_of_decimal 2 0 [''Retry-After'' \<mapsto> ''120''] = 120
   \<and> \<not> retry_wait float_of_decimal 2 0 [''Retry-After'' \<mapsto> ''120''] \<le> 60"
  by code_simp

text \<open>
  C2, amended. Without a numeric wait hint the wait before jitter is
  \<open>min (base_delay * 2^attempt) 60\<close>, hence at most 60 seconds (for the base delay 2 the
  waits of attempts 0..7 are 2, 4, 8, 16, 32, 60, 60, 60); with a numeric wait hint the
  wait before jitter is the hint itself, whatever its size.
\<close>

theorem retry_wait_bound:
  "(parse_retry_after pf hdrs = None \<longrightarrow>
       retry_wait pf base_sleep attempt hdrs = min (base_sleep * 2 ^ attempt) 60
       \<and> retry_wait pf base_sleep attempt hdrs \<le> 60)
   \<and> (parse_retry_after pf hdrs = Some h \<longrightarrow> retry_wait pf base_sleep attempt hdrs = h)
   \<and> map (\<lambda>a. retry_wait pf 2 a Map.empty) [0..<8] = [2, 4, 8, 16, 32, 60, 60, 60]"
  by (simp add: retry_wait_def parse_retry_after_empty upt_rec)

theorem retry_wait_bound_witness:
  "parse_retry_after float_of_decimal [''Retry-After'' \<mapsto> ''Wed, 21 Oct 2026 07:28:00 GMT''] = None
   \<and> retry_wait float_of_decimal 2 6 [''Retry-After'' \<mapsto> ''Wed, 21 Oct 2026 07:28:00 GMT''] = 60
   \<and> parse_retry_after float_of_decimal [''Retry-After'' \<mapsto> ''7''] = Some 7
   \<and> retry_wait float_of_decimal 2 6 [''Retry-After'' \<mapsto> ''7''] = 7"
proof -
  have a: "parse_retry_after float_of_decimal
      [''Retry-After'' \<mapsto> ''Wed, 21 Oct 2026 07:28:00 GMT''] = None"
    by code_simp
  have b: "parse_retry_after float_of_decimal [''Retry-After'' \<mapsto> ''7''] = Some 7"
    by code_simp
  from retry_wait_bound [of float_of_decimal
      "[''Retry-After'' \<mapsto> ''Wed, 21 Oct 2026 07:28:00 GMT'']" 2 6 7] a
  have c: "retry_wait float_of_decimal 2 6
      [''Retry-After'' \<mapsto> ''Wed, 21 Oct 2026 07:28:00 GMT''] = 60"
    by simp
  from retry_wait_bound [of float_of_decimal "[''Retry-After'' \<mapsto> ''7'']" 2 6 7] b
  have d: "retry_wait float_of_decimal 2 6 [''Retry-After'' \<mapsto> ''7''] = 7"
    by simp
  from a b c d show ?thesis by simp
qed



section \<open>Properties of the resilient executor\<close>











section \<open>Properties of the cost row aggregator\<close>

lemma row_entry_plain:
  "plain_row ri ci r \<Longrightarrow>
   row_entry pf ri ci r = Inr (lower (cell_name (r ! ri)), cell_cost (r ! ci))"
  by (auto simp: plain_row_def row_entry_def cell_at_def rg_of_cell_def cost_of_cell_def
        cell_name_def cell_cost_def lower_def split: cell.splits)

lemma summed_cost_Cons:
  "summed_cost ri ci (r # rs) k =
     (if lower (cell_name (r ! ri)) = k then cell_cost (r ! ci) else 0) + summed_cost ri ci rs k"
  by (simp add: summed_cost_def)

lemma summed_cost_absent:
  "k \<notin> (\<lambda>r. lower (cell_name (r ! ri))) ` set rs \<Longrightarrow> summed_cost ri ci rs k = 0"
  by (induction rs) (auto simp: summed_cost_def)

lemma fold_rows_plain:
  "\<forall>r\<in>set rs. plain_row ri ci r \<Longrightarrow>
   fold_rows pf ri ci rs out =
     Inr (\<lambda>k. if k \<in> (\<lambda>r. lower (cell_name (r ! ri))) ` set rs
               then Some ((case out k of None \<Rightarrow> 0 | Some v \<Rightarrow> v) + summed_cost ri ci rs k)
               else out k)"
proof (induction rs arbitrary: out)
  case Nil
  then show ?case by simp
next
  case (Cons r rs)
  from Cons.prems have r: "plain_row ri ci r" and rs: "\<forall>r\<in>set rs. plain_row ri ci r"
    by simp_all
  show ?case
    unfolding fold_rows.simps row_entry_plain [OF r] sum.case prod.case Cons.IH [OF rs]
    by (auto simp: fun_eq_iff summed_cost_Cons summed_cost_absent)
qed

text \<open>
  C8. On rows that carry a name or null in the resource-group column and a number, null
  or the empty string in the cost column, the fold succeeds and its mapping has exactly
  the lower-cased resource-group names as keys; the value of a key is the sum of the
  costs of all rows whose name lower-cases to it, a null or empty cost counting 0.
\<close>

theorem fold_rows_merges_casing:
  "\<forall>r\<in>set rs. plain_row ri ci r \<Longrightarrow>
   fold_rows pf ri ci rs Map.empty =
     Inr (\<lambda>k. if k \<in> (\<lambda>r. lower (cell_name (r ! ri))) ` set rs
               then Some (summed_cost ri ci rs k) else None)"
  by (auto simp: fold_rows_plain fun_eq_iff)

theorem fold_rows_merges_casing_witness:
  "plain_row 0 1 [CStr ''RG1'', CNum 1.5] \<and> plain_row 0 1 [CStr ''rg1'', CNone]
   \<and> plain_row 0 1 [CStr ''Rg1'', CNum 2]
   \<and> (case fold_rows float_of_decimal 0 1
        [[CStr ''RG1'', CNum 1.5], [CStr ''rg1'', CNone], [CStr ''Rg1'', CNum 2]] Map.empty
       of Inl e \<Rightarrow> False | Inr out \<Rightarrow> out ''rg1'' = Some 3.5 \<and> out ''RG1'' = None)"
proof -
  have h: "\<forall>r\<in>set [[CStr ''RG1'', CNum 1.5], [CStr ''rg1'', CNone], [CStr ''Rg1'', CNum 2]].
      plain_row 0 1 r"
    by (simp add: plain_row_def)
  have l: "lower ''RG1'' = ''rg1''" "lower ''rg1'' = ''rg1''" "lower ''Rg1'' = ''rg1''"
    by code_simp+
  show ?thesis
    using h fold_rows_merges_casing [OF h, of float_of_decimal]
    by (simp add: l summed_cost_def cell_name_def cell_cost_def plain_row_def)
qed

section \<open>Properties of the month range\<close>

lemma pad_dec_2: "pad_dec 2 0 = ''00''" "pad_dec 2 1 = ''01''" "pad_dec 2 (Suc 0) = ''01''"
  by code_simp+

lemma isoformat_first:
  "isoformat (replace_to_first d) @ ''Z'' = month_start_iso (year d) (month d)"
  by (simp add: isoformat_def replace_to_first_def month_start_iso_def pad_dec_2)

lemma previous_month_range_eq:
  assumes "1 \<le> month now" and "1 < year now \<or> 1 < month now"
  shows "previous_month_range now =
     Inr (month_start_iso (if month now = 1 then year now - 1 else year now)
            (if month now = 1 then 12 else month now - 1),
          month_start_iso (year now) (month now))"
proof (cases "month now = 1")
  case True
  with assms(2) have y: "1 < year now" by simp
  have "minus_one_day (replace_to_first now)
      = Inr (replace_to_first now\<lparr>year := year now - 1, month := 12, day := 31\<rparr>)"
    using True y by (simp add: minus_one_day_def replace_to_first_def)
  then show ?thesis
    using True isoformat_first [of now]
      isoformat_first [of "replace_to_first now\<lparr>year := year now - 1, month := 12, day := 31\<rparr>"]
    by (simp add: previous_month_range_def Let_def replace_to_first_def)
next
  case False
  with assms(1) have m: "1 < month now" by simp
  have "minus_one_day (replace_to_first now)
      = Inr (replace_to_first now\<lparr>month := month now - 1,
              day := days_in_month (year now) (month now - 1)\<rparr>)"
    using m by (simp add: minus_one_day_def replace_to_first_def)
  then show ?thesis
    using False isoformat_first [of now]
      isoformat_first [of "replace_to_first now\<lparr>month := month now - 1,
              day := days_in_month (year now) (month now - 1)\<rparr>"]
    by (simp add: previous_month_range_def Let_def replace_to_first_def)
qed

text \<open>
  C9. For an invocation time after January of year 1, \<open>previous_month_range\<close> returns
  the pair of Z-suffixed ISO-8601 timestamps of midnight on the first day of the
  preceding calendar month and of midnight on the first day of the invocation month.
\<close>

theorem previous_month_range_spec:
  "valid_datetime now \<Longrightarrow> 1 < year now \<or> 1 < month now \<Longrightarrow>
   previous_month_range now =
     Inr (month_start_iso (if month now = 1 then year now - 1 else year now)
            (if month now = 1 then 12 else month now - 1),
          month_start_iso (year now) (month now))"
  by (rule previous_month_range_eq) (simp_all add: valid_datetime_def)

theorem previous_month_range_spec_witness:
  "valid_datetime \<lparr>year = 2026, month = 1, day = 15, hour = 9, minute = 30, second = 12,
      microsecond = 250\<rparr>
   \<and> previous_month_range \<lparr>year = 2026, month = 1, day = 15, hour = 9, minute = 30,
      second = 12, microsecond = 250\<rparr>
     = Inr (''2025-12-01T00:00:00Z'', ''2026-01-01T00:00:00Z'')"
proof -
  have v: "valid_datetime \<lparr>year = 2026, month = 1, day = 15, hour = 9, minute = 30,
      second = 12, microsecond = 250\<rparr>"
    by (simp add: valid_datetime_def days_in_month_def)
  have s: "month_start_iso 2025 12 = ''2025-12-01T00:00:00Z''"
    "month_start_iso 2026 1 = ''2026-01-01T00:00:00Z''"
    by code_simp+
  from previous_month_range_spec [OF v] v s show ?thesis by simp
qed

lemma previous_month_range_year_one: "previous_month_range \<lparr>year = 1, month = 1, day = 15, hour = 9, minute = 30,
      second = 12, microsecond = 250\<rparr> = Inl OverflowError"
  by (simp add: previous_month_range_def replace_to_first_def minus_one_day_def)

section \<open>Properties of the cost-pull output\<close>

lemma lower_char_idem: "lower_char (lower_char c) = lower_char c"
  by (auto simp: lower_char_def Let_def)

lemma lower_idem: "lower (lower s) = lower s"
  by (simp add: lower_def lower_char_idem)



lemma pull_loop_rgs:
  "pull_loop pf call rnd mr pace s e i targets acc = Inr recs \<Longrightarrow>
   map cr_resource_group recs
     = map cr_resource_group acc @ map lower (concat (map t_resource_groups targets))"
proof (induction targets arbitrary: i acc)
  case Nil
  then show ?case by simp
next
  case (Cons sub targets)
  from Cons.prems obtain rg_costs where
    step: "pull_loop pf call rnd mr pace s e (Suc i) targets
        (acc @ emit_records (t_id sub) s e rg_costs (map lower (t_resource_groups sub))) = Inr recs"
    by (auto simp: Let_def split: sum.splits if_splits)
  show ?case
    using Cons.IH [OF step] by (simp add: emit_records_def comp_def Let_def)
qed








lemma lower_examples:
  "lower ''RG1'' = ''rg1''" "lower ''rg1'' = ''rg1''" "lower ''rg2'' = ''rg2''"
  "lower ''Prod-RG'' = ''prod-rg''" "lower [] = []"
  by code_simp+

lemma month_start_examples:
  "month_start_iso 2026 10 = ''2026-10-01T00:00:00Z''"
  "month_start_iso 2026 11 = ''2026-11-01T00:00:00Z''"
  by code_simp+

lemma previous_month_range_example:
  "previous_month_range \<lparr>year = 2026, month = 11, day = 4, hour = 7, minute = 22, second = 0,
      microsecond = 0\<rparr> = Inr (''2026-10-01T00:00:00Z'', ''2026-11-01T00:00:00Z'')"
  using previous_month_range_eq [of "\<lparr>year = 2026, month = 11, day = 4, hour = 7, minute = 22,
      second = 0, microsecond = 0\<rparr>"]
  by (simp add: month_start_examples)

lemma query_example:
  "query_rg_costs_for_subscription pf
     (\<lambda>k. Returned \<lparr>resp_columns = [Some ''PreTaxCost'', Some ''ResourceGroupName'', Some ''Currency''],
                     resp_rows = [[CNum c, CStr ''RG1'', CStr ''USD'']]\<rparr>) rnd mr
   = Inr [''rg1'' \<mapsto> c]"
  by (simp add: query_rg_costs_for_subscription_def usage_with_retry_def retry_loop.simps
      name_in_def row_entry_def cell_at_def cost_of_cell_def rg_of_cell_def lower_examples)




text \<open>
  C10. In every record of a run that produces output, the resource-group field is the
  lower-cased form of the name listed in the configuration, record by record in the
  order of the configuration; each such field is its own lower-casing.
\<close>

theorem pull_main_lowercases:
  "pull_main pf call rnd mr pace now targets = Inr recs \<Longrightarrow>
   map cr_resource_group recs = map lower (concat (map t_resource_groups targets))
   \<and> (\<forall>r\<in>set recs. lower (cr_resource_group r) = cr_resource_group r)"
proof -
  assume a: "pull_main pf call rnd mr pace now targets = Inr recs"
  then obtain s e where "pull_loop pf call rnd mr pace s e 0 targets [] = Inr recs"
    by (auto simp: pull_main_def split: if_splits sum.splits)
  from pull_loop_rgs [OF this]
  have m: "map cr_resource_group recs = map lower (concat (map t_resource_groups targets))"
    by simp
  have "\<forall>x\<in>set (map cr_resource_group recs). lower x = x"
    unfolding m by (auto simp: lower_idem)
  then have "\<forall>r\<in>set recs. lower (cr_resource_group r) = cr_resource_group r"
    by simp
  with m show ?thesis by simp
qed


theorem pull_main_lowercases_witness:
  "pull_main float_of_decimal
     (\<lambda>i k. Returned \<lparr>resp_columns = [Some ''PreTaxCost'', Some ''ResourceGroupName'', Some ''Currency''],
                       resp_rows = [[CNum 5, CStr ''RG1'', CStr ''USD'']]\<rparr>)
     (\<lambda>i k. 0) 8 1
     \<lparr>year = 2026, month = 11, day = 4, hour = 7, minute = 22, second = 0, microsecond = 0\<rparr>
     [\<lparr>t_id = ''S'', t_resource_groups = [''Prod-RG'']\<rparr>]
   = Inr [\<lparr>cr_subscription_id = ''S'', cr_resource_group = ''prod-rg'',
           cr_start = ''2026-10-01T00:00:00Z'', cr_end = ''2026-11-01T00:00:00Z'',
           cr_total_cost = 0\<rparr>]
   \<and> map cr_resource_group
        [\<lparr>cr_subscription_id = ''S'', cr_resource_group = ''prod-rg'',
           cr_start = ''2026-10-01T00:00:00Z'', cr_end = ''2026-11-01T00:00:00Z'',
           cr_total_cost = 0\<rparr>]
     = map lower (concat (map t_resource_groups [\<lparr>t_id = ''S'', t_resource_groups = [''Prod-RG'']\<rparr>]))"
proof -
  have r: "round2 0 = 0" by code_simp
  have h: "pull_main float_of_decimal
     (\<lambda>i k. Returned \<lparr>resp_columns = [Some ''PreTaxCost'', Some ''ResourceGroupName'', Some ''Currency''],
                       resp_rows = [[CNum 5, CStr ''RG1'', CStr ''USD'']]\<rparr>)
     (\<lambda>i k. 0) 8 1
     \<lparr>year = 2026, month = 11, day = 4, hour = 7, minute = 22, second = 0, microsecond = 0\<rparr>
     [\<lparr>t_id = ''S'', t_resource_groups = [''Prod-RG'']\<rparr>]
   = Inr [\<lparr>cr_subscription_id = ''S'', cr_resource_group = ''prod-rg'',
           cr_start = ''2026-10-01T00:00:00Z'', cr_end = ''2026-11-01T00:00:00Z'',
           cr_total_cost = 0\<rparr>]"
    by (simp add: pull_main_def previous_month_range_example query_example emit_records_def
        lower_examples r Let_def)
  from pull_main_lowercases [OF h] h show ?thesis by blast
qed

end
